theory Spec2Isabelle
  imports Complex_Main "HOL-Library.Word"
begin

section \<open>The voice session engine of App.tsx\<close>

text \<open>
  The component \<open>App\<close> keeps its session in React state (\<open>isActive\<close>,
  \<open>transcription\<close>, \<open>history\<close>) and in refs (\<open>liveSession\<close>,
  \<open>nextStartTime\<close>, \<open>sources\<close>, \<open>transcriptionRef\<close>). The embedding
  passes one record holding all of them through every callback. A state setter that is
  given a value, or an updater that reads nothing but its argument and constants, is
  applied where it is called. The updater given to \<open>setHistory\<close> reads a ref, so
  it is kept in a queue until the next render, when React runs it. Every callback runs
  to its end before the next event is
  delivered: the one \<open>await\<close> inside \<open>onmessage\<close> is taken to resume before
  the next inbound message. Audio times and sample values are exact rationals, so the
  rounding of IEEE doubles is left out.
\<close>

subsection \<open>Capture: samples, quantisation, the outbound blob\<close>

text \<open>A JavaScript number as a \<open>Float32Array\<close> element can hold it.\<close>

datatype js_number = Number rat | PosInfinity | NegInfinity | NaN

text \<open>The product \<open>a * b\<close> of two numbers.\<close>

fun js_times :: "js_number \<Rightarrow> js_number \<Rightarrow> js_number" where
  "js_times NaN b = NaN"
| "js_times a NaN = NaN"
| "js_times (Number a) (Number b) = Number (a * b)"
| "js_times (Number a) PosInfinity =
     (if a = 0 then NaN else if 0 < a then PosInfinity else NegInfinity)"
| "js_times (Number a) NegInfinity =
     (if a = 0 then NaN else if 0 < a then NegInfinity else PosInfinity)"
| "js_times PosInfinity (Number b) =
     (if b = 0 then NaN else if 0 < b then PosInfinity else NegInfinity)"
| "js_times NegInfinity (Number b) =
     (if b = 0 then NaN else if 0 < b then NegInfinity else PosInfinity)"
| "js_times PosInfinity PosInfinity = PosInfinity"
| "js_times PosInfinity NegInfinity = NegInfinity"
| "js_times NegInfinity PosInfinity = NegInfinity"
| "js_times NegInfinity NegInfinity = PosInfinity"

text \<open>\<open>Math.min\<close> and \<open>Math.max\<close> of two arguments: \<open>NaN\<close> wins.\<close>

fun math_min :: "js_number \<Rightarrow> js_number \<Rightarrow> js_number" where
  "math_min NaN b = NaN"
| "math_min a NaN = NaN"
| "math_min NegInfinity b = NegInfinity"
| "math_min a NegInfinity = NegInfinity"
| "math_min PosInfinity b = b"
| "math_min a PosInfinity = a"
| "math_min (Number a) (Number b) = Number (min a b)"

fun math_max :: "js_number \<Rightarrow> js_number \<Rightarrow> js_number" where
  "math_max NaN b = NaN"
| "math_max a NaN = NaN"
| "math_max PosInfinity b = PosInfinity"
| "math_max a PosInfinity = PosInfinity"
| "math_max NegInfinity b = b"
| "math_max a NegInfinity = a"
| "math_max (Number a) (Number b) = Number (max a b)"

text \<open>
  Storing a number into an \<open>Int16Array\<close> applies ToInt16: a number that is not
  finite becomes 0, a finite one is truncated towards zero and then reduced modulo
  \<open>2 ^ 16\<close> into the signed range. \<open>js_truncate\<close> is the integer before the
  reduction, \<open>word_of_int\<close> the reduction.
\<close>

fun js_truncate :: "js_number \<Rightarrow> int" where
  "js_truncate (Number x) = (if 0 \<le> x then \<lfloor>x\<rfloor> else \<lceil>x\<rceil>)"
| "js_truncate PosInfinity = 0"
| "js_truncate NegInfinity = 0"
| "js_truncate NaN = 0"

definition to_int16 :: "js_number \<Rightarrow> 16 word" where
  "to_int16 v = word_of_int (js_truncate v)"

text \<open>
  The right-hand side of line 90,
  \<open>Math.max(-1, Math.min(1, inputData[i] * 0.9)) * 32767\<close>, and the element that
  the assignment leaves in \<open>int16[i]\<close>.
\<close>

definition scaled :: "js_number \<Rightarrow> js_number" where
  "scaled x =
     js_times (math_max (Number (- 1)) (math_min (Number 1) (js_times x (Number (9 / 10)))))
       (Number 32767)"

definition quantize :: "js_number \<Rightarrow> 16 word" where
  "quantize x = to_int16 (scaled x)"

text \<open>The loop of lines 88 to 91 over one frame.\<close>

definition pcm16 :: "js_number list \<Rightarrow> 16 word list" where
  "pcm16 inputData = map quantize inputData"

text \<open>\<open>new Uint8Array(int16.buffer)\<close>: two bytes per sample, low byte first.\<close>

definition uint8_view :: "16 word list \<Rightarrow> 8 word list" where
  "uint8_view ws = concat (map (\<lambda>w. [ucast w, ucast (drop_bit 8 w)]) ws)"

text \<open>
  \<open>encode\<close> of \<open>./services/geminiService\<close> is not part of the sources at hand;
  its result is kept as the constructor \<open>Encode\<close> applied to the bytes.
\<close>

datatype encoded = Encode "8 word list"

record pcm_blob =
  blob_data :: encoded
  mimeType :: string

definition pcmBlob :: "js_number list \<Rightarrow> pcm_blob" where
  "pcmBlob inputData =
     \<lparr>blob_data = Encode (uint8_view (pcm16 inputData)), mimeType = ''audio/pcm;rate=16000''\<rparr>"

subsection \<open>The state of the component and of its collaborators\<close>

text \<open>The object \<open>{user, ai}\<close> of \<open>transcription\<close> and \<open>transcriptionRef\<close>.\<close>

record transcript =
  user :: string
  ai :: string

definition no_transcript :: transcript where
  "no_transcript = \<lparr>user = '''', ai = ''''\<rparr>"

datatype role = RoleUser | RoleAi

text \<open>An element \<open>{text, role}\<close> of \<open>history\<close>.\<close>

record turn_record =
  turn_text :: string
  turn_role :: role

text \<open>
  An \<open>AudioBuffer\<close>: its length in sample frames and its sample rate; the
  platform defines its \<open>duration\<close> as their quotient.
\<close>

record audio_buffer =
  frames :: nat
  sampleRate :: nat

definition duration :: "audio_buffer \<Rightarrow> rat" where
  "duration b = of_nat (frames b) / of_nat (sampleRate b)"

text \<open>
  An \<open>AudioBufferSourceNode\<close> that \<open>onmessage\<close> has created and started on the
  output context: its buffer, the argument of \<open>start\<close>, whether \<open>stop\<close> has
  been called on it and whether its \<open>ended\<close> event has fired. A node is named by its
  index in \<open>nodes\<close>.
\<close>

record buffer_source =
  buffer :: audio_buffer
  start_when :: rat
  stop_called :: bool
  has_ended :: bool

definition end_when :: "buffer_source \<Rightarrow> rat" where
  "end_when n = start_when n + duration (buffer n)"

text \<open>
  One call of \<open>ai.live.connect\<close>: the state of the promise it returned
  (\<open>sessionPromise\<close>) and whether \<open>close\<close> has been called on its session. A
  connection is named by its index in \<open>connections\<close>.
\<close>

datatype promise_state = Pending | Fulfilled | Rejected

record connection =
  promise :: promise_state
  close_called :: bool

record state =
  isActive :: bool
  transcription :: transcript
  history :: "turn_record list"
  audioContexts :: bool
  liveSession :: "nat option"
  nextStartTime :: rat
  sources :: "nat set"
  transcriptionRef :: transcript
  connections :: "connection list"
  processors :: "nat list"
  outbox :: "(nat \<times> pcm_blob) list"
  nodes :: "buffer_source list"
  historyUpdaters :: nat

text \<open>
  \<open>audioContexts\<close> tells whether the two contexts exist; \<open>processors\<close> lists the
  script processors that \<open>onopen\<close> has connected to the microphone, each by the
  connection whose \<open>sessionPromise\<close> its callback closes over; \<open>outbox\<close> lists the
  callbacks that \<open>onaudioprocess\<close> has attached to a \<open>sessionPromise\<close> with
  \<open>then\<close>, each with the blob it will send; \<open>historyUpdaters\<close> counts the
  updaters that have been given to \<open>setHistory\<close> and have not run yet. They are all
  the same function, the one of lines 136 to 145.
\<close>

definition initial :: state where
  "initial =
     \<lparr>isActive = False, transcription = no_transcript, history = [], audioContexts = False,
      liveSession = None, nextStartTime = 0, sources = {}, transcriptionRef = no_transcript,
      connections = [], processors = [], outbox = [], nodes = [], historyUpdaters = 0\<rparr>"

text \<open>The nodes that are scheduled or playing: started, neither stopped nor ended.\<close>

definition scheduled_or_playing :: "state \<Rightarrow> nat set" where
  "scheduled_or_playing s =
     set (filter (\<lambda>i. \<not> stop_called (nodes s ! i) \<and> \<not> has_ended (nodes s ! i))
            [0 ..< length (nodes s)])"

text \<open>
  The blobs that have reached \<open>session.sendRealtimeInput\<close>: a callback attached with
  \<open>then\<close> runs once its promise is fulfilled, whatever has happened to the session
  since.
\<close>

definition handed_to_send :: "state \<Rightarrow> (nat \<times> pcm_blob) list" where
  "handed_to_send s =
     filter (\<lambda>(c, b). c < length (connections s) \<and> promise (connections s ! c) = Fulfilled)
       (outbox s)"

subsection \<open>stopSession and startSession\<close>

text \<open>\<open>sources.current.forEach(s => { try { s.stop(); } catch (e) {} })\<close>.\<close>

definition stop_all :: "nat set \<Rightarrow> buffer_source list \<Rightarrow> buffer_source list" where
  "stop_all S ns =
     map (\<lambda>(i, n). if i \<in> S then n\<lparr>stop_called := True\<rparr> else n) (zip [0 ..< length ns] ns)"

definition close_session :: "nat \<Rightarrow> connection list \<Rightarrow> connection list" where
  "close_session c cs = (if c < length cs then cs[c := (cs ! c)\<lparr>close_called := True\<rparr>] else cs)"

definition stopSession :: "state \<Rightarrow> state" where
  "stopSession s =
     (let s1 = s\<lparr>isActive := False\<rparr>;
          s2 = (case liveSession s1 of
                  None \<Rightarrow> s1
                | Some c \<Rightarrow> s1\<lparr>connections := close_session c (connections s1),
                               liveSession := None\<rparr>);
          s3 = s2\<lparr>nodes := stop_all (sources s2) (nodes s2)\<rparr>;
          s4 = s3\<lparr>sources := {}\<rparr>;
          s5 = s4\<lparr>nextStartTime := 0\<rparr>;
          s6 = s5\<lparr>transcription := no_transcript\<rparr>
      in s6\<lparr>transcriptionRef := no_transcript\<rparr>)"

text \<open>
  What throws inside the \<open>try\<close> of \<open>startSession\<close> before
  \<open>sessionPromise\<close> exists: the \<open>AudioContext\<close> constructor of lines 52 and
  53, in case it is called; or, with the contexts in place, one of \<open>resume\<close>,
  \<open>getUserMedia\<close> and \<open>connect\<close>; or nothing.
\<close>

datatype acquisition = ContextsFail | DevicesFail | Acquired

text \<open>
  \<open>startSession\<close> up to the call of \<open>ai.live.connect\<close>. The constructors are
  called only while \<open>audioContexts.current\<close> is null, and when they throw it stays
  null. Whatever throws, the \<open>catch\<close> of line 177 runs. The assignment of line 175
  happens later, in \<open>connect_fulfilled\<close>.
\<close>

definition startSession :: "acquisition \<Rightarrow> state \<Rightarrow> state" where
  "startSession acquired s =
     (if isActive s then stopSession s
      else if \<not> audioContexts s \<and> acquired = ContextsFail then s\<lparr>isActive := False\<rparr>
      else
        (let s1 = s\<lparr>audioContexts := True\<rparr>
         in if acquired = DevicesFail
            then s1\<lparr>isActive := False\<rparr>
            else s1\<lparr>connections := connections s1 @ [\<lparr>promise = Pending, close_called = False\<rparr>]\<rparr>))"

text \<open>\<open>sessionPromise\<close> of connection \<open>c\<close> is fulfilled (line 175) or rejected (line 177).\<close>

definition connect_fulfilled :: "nat \<Rightarrow> state \<Rightarrow> state" where
  "connect_fulfilled c s =
     (if c < length (connections s)
      then s\<lparr>connections := (connections s)[c := (connections s ! c)\<lparr>promise := Fulfilled\<rparr>],
             liveSession := Some c\<rparr>
      else s)"

definition connect_rejected :: "nat \<Rightarrow> state \<Rightarrow> state" where
  "connect_rejected c s =
     (if c < length (connections s)
      then s\<lparr>connections := (connections s)[c := (connections s ! c)\<lparr>promise := Rejected\<rparr>],
             isActive := False\<rparr>
      else s)"

subsection \<open>The callbacks onopen, onaudioprocess, onerror and onclose\<close>

definition onopen :: "nat \<Rightarrow> state \<Rightarrow> state" where
  "onopen c s = s\<lparr>isActive := True, processors := processors s @ [c]\<rparr>"

definition onaudioprocess :: "nat \<Rightarrow> js_number list \<Rightarrow> state \<Rightarrow> state" where
  "onaudioprocess c inputData s = s\<lparr>outbox := outbox s @ [(c, pcmBlob inputData)]\<rparr>"

text \<open>
  The platform delivers a capture frame to the callback of a script processor as long
  as the processor is connected.
\<close>

definition deliver_frame :: "nat \<Rightarrow> js_number list \<Rightarrow> state \<Rightarrow> state" where
  "deliver_frame c inputData s =
     (if c \<in> set (processors s) then onaudioprocess c inputData s else s)"

definition onerror :: "state \<Rightarrow> state" where
  "onerror s = stopSession s"

definition onclose :: "state \<Rightarrow> state" where
  "onclose s = s\<lparr>isActive := False\<rparr>"

subsection \<open>The callback onmessage\<close>

text \<open>
  What \<open>onmessage\<close> reads of a \<open>LiveServerMessage\<close>. \<open>inlineData\<close> is
  \<open>part.inlineData?.data\<close>, \<open>parts\<close> is \<open>serverContent?.modelTurn?.parts\<close>;
  \<open>None\<close> stands for \<open>undefined\<close>. A transcription object is given by its
  \<open>text\<close>, which may itself be \<open>undefined\<close>.
\<close>

record part =
  inlineData :: "string option"

record server_message =
  parts :: "part list option"
  inputTranscription :: "string option option"
  outputTranscription :: "string option option"
  turnComplete :: bool
  interrupted :: bool

text \<open>
  \<open>decode\<close> and \<open>decodeAudioData\<close> of \<open>./services/geminiService\<close> are not
  part of the sources at hand. A decoder is a parameter of the model: it maps the data
  of a chunk to the decoded buffer, or to \<open>None\<close> when decoding throws.
\<close>

type_synonym decoder = "string \<Rightarrow> audio_buffer option"

text \<open>
  How a run of the callback ends. Nothing in \<open>onmessage\<close> catches an exception, so
  a throw ends the run and leaves the state as it was at that point.
\<close>

datatype js_error = TypeError | DecodeError

datatype outcome = Completed | Threw js_error

text \<open>
  The loop of lines 108 to 121, with \<open>now\<close> the value of \<open>outCtx.currentTime\<close>.
  A part whose data is \<open>undefined\<close> or the empty string is skipped. Line 119 calls
  \<open>add\<close> on \<open>sources\<close>, the ref object, and not on \<open>sources.current\<close>: the
  ref has no such method, so the call throws a TypeError after the source has been
  started and \<open>nextStartTime\<close> advanced.
\<close>

fun handle_parts :: "decoder \<Rightarrow> rat \<Rightarrow> part list \<Rightarrow> state \<Rightarrow> outcome \<times> state" where
  "handle_parts dec now [] s = (Completed, s)"
| "handle_parts dec now (p # ps) s =
     (case inlineData p of
        None \<Rightarrow> handle_parts dec now ps s
      | Some d \<Rightarrow>
          if d = [] then handle_parts dec now ps s
          else
            (let s1 = s\<lparr>nextStartTime := max (nextStartTime s) now\<rparr>
             in case dec d of
                  None \<Rightarrow> (Threw DecodeError, s1)
                | Some audioBuffer \<Rightarrow>
                    (let source = \<lparr>buffer = audioBuffer, start_when = nextStartTime s1,
                                   stop_called = False, has_ended = False\<rparr>;
                         s2 = s1\<lparr>nodes := nodes s1 @ [source]\<rparr>;
                         s3 = s2\<lparr>nextStartTime := nextStartTime s2 + duration audioBuffer\<rparr>
                     in (Threw TypeError, s3))))"

text \<open>The listener of line 116, run when the \<open>ended\<close> event of node \<open>i\<close> fires.\<close>

definition on_ended :: "nat \<Rightarrow> state \<Rightarrow> state" where
  "on_ended i s =
     (if i < length (nodes s)
      then s\<lparr>nodes := (nodes s)[i := (nodes s ! i)\<lparr>has_ended := True\<rparr>],
             sources := sources s - {i}\<rparr>
      else s)"

text \<open>String concatenation \<open>acc + text\<close>, where \<open>text\<close> may be \<open>undefined\<close>.\<close>

fun js_append :: "string \<Rightarrow> string option \<Rightarrow> string" where
  "js_append acc (Some t) = acc @ t"
| "js_append acc None = acc @ ''undefined''"

text \<open>Lines 124 to 128.\<close>

definition on_inputTranscription :: "server_message \<Rightarrow> state \<Rightarrow> state" where
  "on_inputTranscription m s =
     (case inputTranscription m of
        None \<Rightarrow> s
      | Some t \<Rightarrow>
          (let s1 = s\<lparr>transcriptionRef :=
                        (transcriptionRef s)\<lparr>user := js_append (user (transcriptionRef s)) t\<rparr>\<rparr>
           in s1\<lparr>transcription :=
                   (transcription s1)\<lparr>user := js_append (user (transcription s1)) t\<rparr>\<rparr>))"

text \<open>Lines 129 to 133.\<close>

definition on_outputTranscription :: "server_message \<Rightarrow> state \<Rightarrow> state" where
  "on_outputTranscription m s =
     (case outputTranscription m of
        None \<Rightarrow> s
      | Some t \<Rightarrow>
          (let s1 = s\<lparr>transcriptionRef :=
                        (transcriptionRef s)\<lparr>ai := js_append (ai (transcriptionRef s)) t\<rparr>\<rparr>
           in s1\<lparr>transcription := \<lparr>user = '''', ai = ai (transcriptionRef s1)\<rparr>\<rparr>))"

text \<open>\<open>xs.slice(-n)\<close>: the last \<open>n\<close> elements, all of them when there are fewer.\<close>

definition slice_last :: "nat \<Rightarrow> 'a list \<Rightarrow> 'a list" where
  "slice_last n xs = drop (length xs - n) xs"

text \<open>
  The updater of lines 136 to 145, applied to \<open>prev\<close>; \<open>ref\<close> is what it finds
  in \<open>transcriptionRef.current\<close> when it runs.
\<close>

definition history_updater :: "transcript \<Rightarrow> turn_record list \<Rightarrow> turn_record list" where
  "history_updater ref prev =
     (let newEntries = [];
          newEntries = (if user ref \<noteq> []
                        then newEntries @ [\<lparr>turn_text = user ref, turn_role = RoleUser\<rparr>]
                        else newEntries);
          newEntries = (if ai ref \<noteq> []
                        then newEntries @ [\<lparr>turn_text = ai ref, turn_role = RoleAi\<rparr>]
                        else newEntries)
      in slice_last 2 (prev @ newEntries))"

text \<open>
  Lines 135 to 148. \<open>setHistory\<close> puts the updater in the queue; it does not run
  before line 147 has replaced the object in the ref.
\<close>

definition on_turnComplete :: "server_message \<Rightarrow> state \<Rightarrow> state" where
  "on_turnComplete m s =
     (if turnComplete m
      then
        (let s1 = s\<lparr>historyUpdaters := historyUpdaters s + 1\<rparr>;
             s2 = s1\<lparr>transcription := no_transcript\<rparr>
         in s2\<lparr>transcriptionRef := no_transcript\<rparr>)
      else s)"

text \<open>
  A render of the component: React runs the queued updaters in order, each on the
  result of the one before, and each reads the ref as it is then.
\<close>

definition render :: "state \<Rightarrow> state" where
  "render s =
     s\<lparr>history := (history_updater (transcriptionRef s) ^^ historyUpdaters s) (history s),
       historyUpdaters := 0\<rparr>"

text \<open>Lines 150 to 154.\<close>

definition on_interrupted :: "server_message \<Rightarrow> state \<Rightarrow> state" where
  "on_interrupted m s =
     (if interrupted m
      then
        (let s1 = s\<lparr>nodes := stop_all (sources s) (nodes s)\<rparr>;
             s2 = s1\<lparr>sources := {}\<rparr>
         in s2\<lparr>nextStartTime := 0\<rparr>)
      else s)"

definition onmessage :: "decoder \<Rightarrow> rat \<Rightarrow> server_message \<Rightarrow> state \<Rightarrow> outcome \<times> state" where
  "onmessage dec now m s =
     (case (case parts m of
              None \<Rightarrow> (Completed, s)
            | Some ps \<Rightarrow> handle_parts dec now ps s) of
        (Threw e, s1) \<Rightarrow> (Threw e, s1)
      | (Completed, s1) \<Rightarrow>
          (Completed,
           on_interrupted m
             (on_turnComplete m (on_outputTranscription m (on_inputTranscription m s1)))))"

text \<open>
  A sequence of inbound messages, each with the reading of the output clock at its
  arrival. The channel calls \<open>onmessage\<close> for every message; a run that threw does
  not keep the next one from starting.
\<close>

fun inbound :: "decoder \<Rightarrow> (rat \<times> server_message) list \<Rightarrow> state \<Rightarrow> state" where
  "inbound dec [] s = s"
| "inbound dec ((now, m) # evs) s = inbound dec evs (snd (onmessage dec now m s))"

text \<open>
  A part that the loop skips, and whether a message holds a part with audio data, one
  that the loop does not skip.
\<close>

definition silent :: "part \<Rightarrow> bool" where
  "silent p = (case inlineData p of None \<Rightarrow> True | Some d \<Rightarrow> d = [])"

definition carries_audio :: "server_message \<Rightarrow> bool" where
  "carries_audio m = (case parts m of None \<Rightarrow> False | Some ps \<Rightarrow> \<not> list_all silent ps)"

subsection \<open>What a completed turn emits, in the words of the specification\<close>

text \<open>
  One record for each of the user and the assistant accumulator that is not empty, the
  user's first.
\<close>

definition emitted_records :: "transcript \<Rightarrow> turn_record list" where
  "emitted_records acc =
     map (\<lambda>(t, r). \<lparr>turn_text = t, turn_role = r\<rparr>)
       (filter (\<lambda>(t, r). t \<noteq> []) [(user acc, RoleUser), (ai acc, RoleAi)])"

subsection \<open>Messages and a decoder for the scenarios\<close>

definition no_event :: server_message where
  "no_event =
     \<lparr>parts = None, inputTranscription = None, outputTranscription = None,
      turnComplete = False, interrupted = False\<rparr>"

definition audio_event :: "string \<Rightarrow> server_message" where
  "audio_event d = no_event\<lparr>parts := Some [\<lparr>inlineData = Some d\<rparr>]\<rparr>"

text \<open>One message whose parts hold two chunks.\<close>

definition two_chunk_event :: "string \<Rightarrow> string \<Rightarrow> server_message" where
  "two_chunk_event d1 d2 =
     no_event\<lparr>parts := Some [\<lparr>inlineData = Some d1\<rparr>, \<lparr>inlineData = Some d2\<rparr>]\<rparr>"

definition user_delta :: "string \<Rightarrow> server_message" where
  "user_delta t = no_event\<lparr>inputTranscription := Some (Some t)\<rparr>"

definition assistant_delta :: "string \<Rightarrow> server_message" where
  "assistant_delta t = no_event\<lparr>outputTranscription := Some (Some t)\<rparr>"

definition turn_complete_event :: server_message where
  "turn_complete_event = no_event\<lparr>turnComplete := True\<rparr>"

definition interrupted_event :: server_message where
  "interrupted_event = no_event\<lparr>interrupted := True\<rparr>"

text \<open>
  A decoder that knows two chunks, of 0.5 s and of 0.3 s at 24000 Hz, and throws on
  everything else.
\<close>

definition two_chunk_decoder :: decoder where
  "two_chunk_decoder d =
     (if d = ''half-second'' then Some \<lparr>frames = 12000, sampleRate = 24000\<rparr>
      else if d = ''three-tenths'' then Some \<lparr>frames = 7200, sampleRate = 24000\<rparr>
      else None)"

text \<open>
  A state in which one source is playing and registered in \<open>sources.current\<close>, as
  line 119 is meant to leave it.
\<close>

definition playing_state :: state where
  "playing_state =
     initial\<lparr>isActive := True, nextStartTime := 21 / 2, sources := {0},
       history := [\<lparr>turn_text = ''Hi'', turn_role = RoleUser\<rparr>],
       nodes := [\<lparr>buffer = \<lparr>frames = 12000, sampleRate = 24000\<rparr>, start_when = 10,
                   stop_called = False, has_ended = False\<rparr>]\<rparr>"

text \<open>
  The session after a first start request, while the channel is not open yet, and the
  session once the channel has opened and \<open>sessionPromise\<close> is fulfilled.
\<close>

definition connecting_state :: state where
  "connecting_state = startSession Acquired initial"

definition active_state :: state where
  "active_state = connect_fulfilled 0 (onopen 0 connecting_state)"

section \<open>Properties\<close>

subsection \<open>Quantisation of capture frames\<close>

lemma sint16_of_int: "- 32768 \<le> k \<Longrightarrow> k < 32768 \<Longrightarrow> sint (word_of_int k :: 16 word) = k"
  by (simp add: signed_of_int signed_take_bit_int_eq_self)

lemma clamp_cases:
  "math_max (Number (- 1)) (math_min (Number 1) (js_times x (Number (9 / 10)))) = NaN \<or>
   (\<exists>c. - 1 \<le> c \<and> c \<le> 1 \<and>
      math_max (Number (- 1)) (math_min (Number 1) (js_times x (Number (9 / 10)))) = Number c)"
  by (cases x) auto

lemma js_truncate_bounds:
  assumes "- 32767 \<le> v" "v \<le> 32767"
  shows "- 32767 \<le> js_truncate (Number v) \<and> js_truncate (Number v) \<le> 32767"
  using assms by (auto simp: le_floor_iff floor_le_iff ceiling_le_iff le_ceiling_iff) 

lemma scaled_bounds: "- 32767 \<le> js_truncate (scaled x) \<and> js_truncate (scaled x) \<le> 32767"
proof -
  from clamp_cases [of x] show ?thesis
  proof
    assume "math_max (Number (- 1)) (math_min (Number 1) (js_times x (Number (9 / 10)))) = NaN"
    then show ?thesis by (simp add: scaled_def)
  next
    assume "\<exists>c. - 1 \<le> c \<and> c \<le> 1 \<and>
      math_max (Number (- 1)) (math_min (Number 1) (js_times x (Number (9 / 10)))) = Number c"
    then obtain c where c: "- 1 \<le> c" "c \<le> 1"
      and eq: "math_max (Number (- 1)) (math_min (Number 1) (js_times x (Number (9 / 10)))) = Number c"
      by blast
    have "scaled x = Number (c * 32767)" by (simp add: scaled_def eq)
    moreover have "- 32767 \<le> c * 32767" "c * 32767 \<le> 32767" using c by simp_all
    ultimately show ?thesis using js_truncate_bounds by metis
  qed
qed

lemma sint_quantize: "sint (quantize x) = js_truncate (scaled x)"
  unfolding quantize_def to_int16_def
  using scaled_bounds [of x] by (intro sint16_of_int) linarith+

lemma full_scale_pos: "sint (quantize (Number 1)) = 29490"
  by code_simp

lemma full_scale_neg: "sint (quantize (Number (- 1))) = - 29490"
  by code_simp

text \<open>
  Claim C2. Every sample of a capture frame is multiplied by 0.9, clamped to
  \<open>[-1, 1]\<close>, multiplied by 32767 and stored as a 16-bit signed integer. Whatever
  the frame holds, every stored sample lies between -32767 and 32767, and it is the
  truncated product itself: the store does not wrap around. A sample at full scale,
  1 or -1, is stored as 29490 or -29490, less than one step away from
  \<open>32767 * 0.9\<close>.
\<close>

theorem pcm16_no_overflow:
  "(\<forall>w \<in> set (pcm16 inputData). - 32767 \<le> sint w \<and> sint w \<le> 32767) \<and>
   map sint (pcm16 inputData) = map (\<lambda>x. js_truncate (scaled x)) inputData \<and>
   sint (quantize (Number 1)) = 29490 \<and>
   sint (quantize (Number (- 1))) = - 29490 \<and>
   \<bar>of_int (sint (quantize (Number 1))) - 32767 * (9 / 10)\<bar> < (1::rat) \<and>
   \<bar>of_int (sint (quantize (Number (- 1)))) + 32767 * (9 / 10)\<bar> < (1::rat)"
proof -
  have "\<forall>w \<in> set (pcm16 inputData). - 32767 \<le> sint w \<and> sint w \<le> 32767"
    using scaled_bounds by (auto simp: pcm16_def sint_quantize)
  moreover have "map sint (pcm16 inputData) = map (\<lambda>x. js_truncate (scaled x)) inputData"
    by (simp add: pcm16_def sint_quantize)
  moreover have "\<bar>of_int (sint (quantize (Number 1))) - 32767 * (9 / 10)\<bar> < (1::rat)"
    by (simp add: full_scale_pos)
  moreover have "\<bar>of_int (sint (quantize (Number (- 1)))) + 32767 * (9 / 10)\<bar> < (1::rat)"
    by (simp add: full_scale_neg)
  ultimately show ?thesis
    using full_scale_pos full_scale_neg by blast
qed

theorem pcm16_no_overflow_witness:
  "quantize (Number (3 / 2)) \<in>
     set (pcm16 [Number 1, Number (- 1), Number (3 / 2), NaN, NegInfinity]) \<and>
   - 32767 \<le> sint (quantize (Number (3 / 2))) \<and> sint (quantize (Number (3 / 2))) \<le> 32767 \<and>
   map sint (pcm16 [Number 1, Number (- 1), Number (3 / 2), NaN, NegInfinity]) =
     [29490, - 29490, 32767, 0, - 32767]"
proof -
  note t = pcm16_no_overflow [of "[Number 1, Number (- 1), Number (3 / 2), NaN, NegInfinity]"]
  have m: "quantize (Number (3 / 2)) \<in>
     set (pcm16 [Number 1, Number (- 1), Number (3 / 2), NaN, NegInfinity])"
    by (simp add: pcm16_def)
  have r: "- 32767 \<le> sint (quantize (Number (3 / 2))) \<and> sint (quantize (Number (3 / 2))) \<le> 32767"
    using t [THEN conjunct1] m by (rule bspec)
  have "map (\<lambda>x. js_truncate (scaled x)) [Number 1, Number (- 1), Number (3 / 2), NaN, NegInfinity] =
     [29490, - 29490, 32767, 0, - 32767]"
    by code_simp
  then have v: "map sint (pcm16 [Number 1, Number (- 1), Number (3 / 2), NaN, NegInfinity]) =
     [29490, - 29490, 32767, 0, - 32767]"
    using t [THEN conjunct2, THEN conjunct1] by (simp only:)
  from m r v show ?thesis
    by blast
qed

subsection \<open>Playback scheduling\<close>

lemma duration_nonneg: "0 \<le> duration b"
  by (simp add: duration_def)

lemma handle_parts_silent:
  "list_all silent pre \<Longrightarrow> handle_parts dec now (pre @ rest) s = handle_parts dec now rest s"
  by (induction pre) (auto simp: silent_def split: option.splits)

lemma handle_parts_no_audio:
  "list_all silent ps \<Longrightarrow> handle_parts dec now ps s = (Completed, s)"
  using handle_parts_silent [of ps dec now "[]" s] by simp

lemma carries_audio_silent:
  "parts m = Some ps \<Longrightarrow> carries_audio m = (\<not> list_all silent ps)"
  by (simp add: carries_audio_def)

lemma handle_parts_decoded:
  assumes "list_all silent pre" "inlineData p = Some d" "d \<noteq> []" "dec d = Some audioBuffer"
  shows "handle_parts dec now (pre @ p # ps) s =
     (Threw TypeError,
      s\<lparr>nextStartTime := max (nextStartTime s) now + duration audioBuffer,
        nodes := nodes s @ [\<lparr>buffer = audioBuffer, start_when = max (nextStartTime s) now,
                              stop_called = False, has_ended = False\<rparr>]\<rparr>)"
  using assms by (simp add: handle_parts_silent Let_def)

lemma handle_parts_undecodable:
  assumes "list_all silent pre" "inlineData p = Some d" "d \<noteq> []" "dec d = None"
  shows "handle_parts dec now (pre @ p # ps) s =
     (Threw DecodeError, s\<lparr>nextStartTime := max (nextStartTime s) now\<rparr>)"
  using assms by (simp add: handle_parts_silent Let_def)

lemma onmessage_decoded:
  assumes "parts m = Some (pre @ p # ps)" "list_all silent pre"
    and "inlineData p = Some d" "d \<noteq> []" "dec d = Some audioBuffer"
  shows "onmessage dec now m s =
     (Threw TypeError,
      s\<lparr>nextStartTime := max (nextStartTime s) now + duration audioBuffer,
        nodes := nodes s @ [\<lparr>buffer = audioBuffer, start_when = max (nextStartTime s) now,
                              stop_called = False, has_ended = False\<rparr>]\<rparr>)"
  using assms by (simp add: onmessage_def handle_parts_decoded [where d = d])

lemma onmessage_undecodable:
  assumes "parts m = Some (pre @ p # ps)" "list_all silent pre"
    and "inlineData p = Some d" "d \<noteq> []" "dec d = None"
  shows "onmessage dec now m s =
     (Threw DecodeError, s\<lparr>nextStartTime := max (nextStartTime s) now\<rparr>)"
  using assms by (simp add: onmessage_def handle_parts_undecodable [where d = d])

lemma onmessage_no_audio:
  "\<not> carries_audio m \<Longrightarrow>
   onmessage dec now m s =
     (Completed,
      on_interrupted m (on_turnComplete m (on_outputTranscription m (on_inputTranscription m s))))"
  by (cases "parts m") (simp_all add: onmessage_def carries_audio_silent handle_parts_no_audio)

lemma handle_parts_nextStartTime:
  "nextStartTime s \<le> nextStartTime (snd (handle_parts dec now ps s))"
proof (induction ps)
  case Nil
  then show ?case by simp
next
  case (Cons p ps)
  have "nextStartTime s \<le> max (nextStartTime s) now + duration b" for b
    using duration_nonneg [of b] by linarith
  with Cons show ?case
    by (auto simp: Let_def split: option.splits)
qed

lemma handle_parts_frame:
  "handle_parts dec now ps s = (out, s') \<Longrightarrow>
   isActive s' = isActive s \<and> history s' = history s \<and> transcription s' = transcription s \<and>
   transcriptionRef s' = transcriptionRef s \<and> sources s' = sources s \<and>
   liveSession s' = liveSession s \<and> connections s' = connections s \<and>
   processors s' = processors s \<and> outbox s' = outbox s \<and> audioContexts s' = audioContexts s"
  by (induction ps) (auto simp: Let_def split: option.splits if_splits)

lemma transcript_blocks_nextStartTime:
  "nextStartTime (on_turnComplete m (on_outputTranscription m (on_inputTranscription m s))) =
   nextStartTime s"
  by (simp add: on_turnComplete_def on_outputTranscription_def on_inputTranscription_def Let_def
      split: option.splits)

lemma onmessage_nextStartTime:
  assumes "\<not> interrupted m"
  shows "nextStartTime s \<le> nextStartTime (snd (onmessage dec now m s))"
proof (cases "parts m")
  case None
  with assms show ?thesis
    by (simp add: onmessage_def on_interrupted_def transcript_blocks_nextStartTime)
next
  case (Some ps)
  obtain out s1 where h: "handle_parts dec now ps s = (out, s1)"
    by (cases "handle_parts dec now ps s")
  have "nextStartTime s \<le> nextStartTime s1"
    using handle_parts_nextStartTime [of s dec now ps] h by simp
  with assms Some h show ?thesis
    by (cases out) (simp_all add: onmessage_def on_interrupted_def transcript_blocks_nextStartTime)
qed

lemma inbound_nextStartTime:
  "\<forall>(now, m) \<in> set evs. \<not> interrupted m \<Longrightarrow>
   nextStartTime s \<le> nextStartTime (inbound dec evs s)"
proof (induction evs arbitrary: s)
  case Nil
  then show ?case by simp
next
  case (Cons ev evs)
  obtain now m where ev: "ev = (now, m)" by (cases ev)
  from Cons.prems ev have "\<not> interrupted m" by simp
  then have "nextStartTime s \<le> nextStartTime (snd (onmessage dec now m s))"
    by (rule onmessage_nextStartTime)
  moreover have "nextStartTime (snd (onmessage dec now m s))
      \<le> nextStartTime (inbound dec evs (snd (onmessage dec now m s)))"
    using Cons.prems by (intro Cons.IH) simp
  ultimately show ?case by (simp add: ev)
qed

lemma stopSession_nextStartTime: "nextStartTime (stopSession s) = 0"
  by (simp add: stopSession_def Let_def split: option.splits)

text \<open>
  The first part with audio data that decodes is scheduled as intended: the source
  starts at \<open>max nextStartTime now\<close>, ends at that time plus the duration of the
  buffer, and \<open>nextStartTime\<close> is left at that end. Nothing of the message after that
  part has any effect.
\<close>

lemma first_chunk_starts_at_max:
  assumes "parts m = Some (pre @ p # ps)" "list_all silent pre"
    and "inlineData p = Some d" "d \<noteq> []" "dec d = Some audioBuffer"
  shows "nodes (snd (onmessage dec now m s)) =
           nodes s @ [\<lparr>buffer = audioBuffer, start_when = max (nextStartTime s) now,
                        stop_called = False, has_ended = False\<rparr>] \<and>
         start_when (last (nodes (snd (onmessage dec now m s)))) = max (nextStartTime s) now \<and>
         end_when (last (nodes (snd (onmessage dec now m s)))) =
           max (nextStartTime s) now + duration audioBuffer \<and>
         nextStartTime (snd (onmessage dec now m s)) =
           max (nextStartTime s) now + duration audioBuffer"
  by (simp add: onmessage_decoded [OF assms(1,2,3,4), where dec = dec, OF assms(5)] end_when_def)

text \<open>Two chunks that arrive as two messages play back to back.\<close>

lemma two_messages_back_to_back:
  "map (\<lambda>n. (start_when n, end_when n))
     (nodes (inbound two_chunk_decoder
        [(10, audio_event ''half-second''), (10, audio_event ''three-tenths'')] initial)) =
   [(10, 21 / 2), (21 / 2, 54 / 5)]"
  by (simp add: onmessage_def audio_event_def no_event_def two_chunk_decoder_def initial_def
      end_when_def duration_def Let_def)

text \<open>
  Claim C1. Every inbound audio chunk is to be started at
  \<open>max nextStartTime now\<close> and to advance \<open>nextStartTime\<close> by its duration, so
  that the chunks of 0.5 s and 0.3 s, arriving while the clock reads 10 and
  \<open>nextStartTime\<close> is 0, play over \<open>[10, 10.5]\<close> and \<open>[10.5, 10.8]\<close>. When
  the two chunks are parts of one message, the first is started at 10 and
  \<open>nextStartTime\<close> becomes 10.5; then line 119 throws, the loop is left, and the
  second chunk is never decoded, started or counted in \<open>nextStartTime\<close>.
\<close>

theorem later_chunk_of_message_not_scheduled:
  "fst (onmessage two_chunk_decoder 10 (two_chunk_event ''half-second'' ''three-tenths'') initial) =
     Threw TypeError \<and>
   map (\<lambda>n. (start_when n, end_when n))
     (nodes (snd (onmessage two_chunk_decoder 10
        (two_chunk_event ''half-second'' ''three-tenths'') initial))) = [(10, 21 / 2)] \<and>
   nextStartTime (snd (onmessage two_chunk_decoder 10
     (two_chunk_event ''half-second'' ''three-tenths'') initial)) = 21 / 2"
  by (simp add: onmessage_def two_chunk_event_def no_event_def two_chunk_decoder_def initial_def
      end_when_def duration_def Let_def)

text \<open>
  Claim C5. Over any sequence of inbound messages none of which is marked
  \<open>interrupted\<close>, \<open>nextStartTime\<close> at the end is at least what it was at the
  start, whatever the chunks decode to and whatever the clock reads. A message marked
  \<open>interrupted\<close> whose handling reaches line 150 leaves \<open>nextStartTime\<close> at 0,
  and so do \<open>stopSession\<close> and \<open>onerror\<close>.
\<close>

theorem nextStartTime_monotone_then_reset:
  "((\<forall>(now, m) \<in> set evs. \<not> interrupted m) \<longrightarrow>
      nextStartTime s \<le> nextStartTime (inbound dec evs s)) \<and>
   (interrupted m \<and> \<not> carries_audio m \<longrightarrow> nextStartTime (snd (onmessage dec now m s)) = 0) \<and>
   nextStartTime (stopSession s) = 0 \<and>
   nextStartTime (onerror s) = 0"
  using inbound_nextStartTime [of evs s dec]
  by (simp add: onmessage_no_audio stopSession_nextStartTime onerror_def on_interrupted_def)

theorem nextStartTime_monotone_then_reset_witness:
  "\<not> interrupted (audio_event ''half-second'') \<and> \<not> interrupted (audio_event ''three-tenths'') \<and>
   nextStartTime initial \<le>
     nextStartTime (inbound two_chunk_decoder
       [(10, audio_event ''half-second''), (10, audio_event ''three-tenths'')] initial) \<and>
   interrupted interrupted_event \<and> \<not> carries_audio interrupted_event \<and>
   nextStartTime (snd (onmessage two_chunk_decoder 11 interrupted_event
     (inbound two_chunk_decoder
       [(10, audio_event ''half-second''), (10, audio_event ''three-tenths'')] initial))) = 0"
proof -
  have a: "\<forall>(now, m) \<in> set [(10 :: rat, audio_event ''half-second''), (10, audio_event ''three-tenths'')].
      \<not> interrupted m"
    by (simp add: audio_event_def no_event_def)
  have b: "interrupted interrupted_event \<and> \<not> carries_audio interrupted_event"
    by (simp add: interrupted_event_def no_event_def carries_audio_def)
  let ?evs = "[(10, audio_event ''half-second''), (10, audio_event ''three-tenths'')]"
  have c: "nextStartTime initial \<le> nextStartTime (inbound two_chunk_decoder ?evs initial)"
    using a nextStartTime_monotone_then_reset [of ?evs initial two_chunk_decoder interrupted_event 11,
        THEN conjunct1]
    by (rule rev_mp)
  have d: "nextStartTime (snd (onmessage two_chunk_decoder 11 interrupted_event
      (inbound two_chunk_decoder ?evs initial))) = 0"
    using b nextStartTime_monotone_then_reset [of ?evs "inbound two_chunk_decoder ?evs initial"
        two_chunk_decoder interrupted_event 11, THEN conjunct2, THEN conjunct1]
    by (rule rev_mp)
  have e: "\<not> interrupted (audio_event ''half-second'')" "\<not> interrupted (audio_event ''three-tenths'')"
    by (simp_all add: audio_event_def no_event_def)
  from e b c d show ?thesis
    by blast
qed

text \<open>
  Claim C9, as stated, asks that a chunk that fails to decode leaves
  \<open>nextStartTime\<close> as it was. From the initial state, where it is 0, a chunk that
  the decoder rejects, arriving when the clock reads 10, leaves it at 10.
\<close>

theorem failed_decode_moves_nextStartTime:
  "two_chunk_decoder ''garbled'' = None \<and>
   nextStartTime initial = 0 \<and>
   nextStartTime (snd (onmessage two_chunk_decoder 10 (audio_event ''garbled'') initial)) = 10"
  by (simp add: onmessage_def audio_event_def no_event_def two_chunk_decoder_def initial_def Let_def)

text \<open>
  Claim C9, amended. When the decoder throws on a chunk, no source is created, the run
  of \<open>onmessage\<close> ends there, and the only change to the state is that
  \<open>nextStartTime\<close> becomes the larger of its old value and the clock: it is
  unchanged when it was not behind the clock. \<open>isActive\<close> is as before, and a message
  that arrives no earlier and starts with a decodable chunk is handled exactly as it
  would have been had the failed chunk never arrived.
\<close>

theorem failed_decode_drops_chunk:
  assumes "parts m = Some (pre @ p # ps)" "list_all silent pre"
    and "inlineData p = Some d" "d \<noteq> []" "dec d = None"
  shows "onmessage dec now m s =
           (Threw DecodeError, s\<lparr>nextStartTime := max (nextStartTime s) now\<rparr>) \<and>
         nodes (snd (onmessage dec now m s)) = nodes s \<and>
         isActive (snd (onmessage dec now m s)) = isActive s \<and>
         (now \<le> nextStartTime s \<longrightarrow> snd (onmessage dec now m s) = s) \<and>
         (\<forall>now' m' p' ps' d' b.
            now \<le> now' \<and> parts m' = Some (p' # ps') \<and> inlineData p' = Some d' \<and> d' \<noteq> [] \<and>
            dec d' = Some b \<longrightarrow>
            onmessage dec now' m' (snd (onmessage dec now m s)) = onmessage dec now' m' s)"
proof -
  have eq: "onmessage dec now m s =
      (Threw DecodeError, s\<lparr>nextStartTime := max (nextStartTime s) now\<rparr>)"
    using assms by (rule onmessage_undecodable)
  have same: "now \<le> nextStartTime s \<longrightarrow> snd (onmessage dec now m s) = s"
    by (simp add: eq max_absorb1)
  have later: "onmessage dec now' m' (snd (onmessage dec now m s)) = onmessage dec now' m' s"
    if "now \<le> now'" "parts m' = Some (p' # ps')" "inlineData p' = Some d'" "d' \<noteq> []"
      "dec d' = Some b" for now' m' p' ps' d' b
  proof -
    have "max (max (nextStartTime s) now) now' = max (nextStartTime s) now'"
      using that(1) by linarith
    moreover have "parts m' = Some ([] @ p' # ps')" "list_all silent []"
      using that(2) by simp_all
    ultimately show ?thesis
      using that(3-5)
      by (simp add: eq onmessage_decoded [where pre = "[]" and d = d' and m = m'])
  qed
  have kept: "nodes (snd (onmessage dec now m s)) = nodes s"
    "isActive (snd (onmessage dec now m s)) = isActive s"
    by (simp_all add: eq)
  from later have later_all: "\<forall>now' m' p' ps' d' b.
      now \<le> now' \<and> parts m' = Some (p' # ps') \<and> inlineData p' = Some d' \<and> d' \<noteq> [] \<and>
      dec d' = Some b \<longrightarrow>
      onmessage dec now' m' (snd (onmessage dec now m s)) = onmessage dec now' m' s"
    by blast
  from eq kept same later_all show ?thesis
    by (intro conjI)
qed

theorem failed_decode_drops_chunk_witness:
  "parts (audio_event ''garbled'') = Some ([] @ \<lparr>inlineData = Some ''garbled''\<rparr> # []) \<and>
   list_all silent [] \<and>
   inlineData \<lparr>inlineData = Some ''garbled''\<rparr> = Some ''garbled'' \<and>
   ''garbled'' \<noteq> [] \<and>
   two_chunk_decoder ''garbled'' = None \<and>
   onmessage two_chunk_decoder 10 (audio_event ''garbled'') initial =
     (Threw DecodeError, initial\<lparr>nextStartTime := 10\<rparr>) \<and>
   (10 :: rat) \<le> 10 \<and>
   parts (audio_event ''half-second'') = Some (\<lparr>inlineData = Some ''half-second''\<rparr> # []) \<and>
   two_chunk_decoder ''half-second'' = Some \<lparr>frames = 12000, sampleRate = 24000\<rparr> \<and>
   onmessage two_chunk_decoder 10 (audio_event ''half-second'')
     (snd (onmessage two_chunk_decoder 10 (audio_event ''garbled'') initial)) =
   onmessage two_chunk_decoder 10 (audio_event ''half-second'') initial"
proof -
  have h: "parts (audio_event ''garbled'') = Some ([] @ \<lparr>inlineData = Some ''garbled''\<rparr> # [])"
    by (simp add: audio_event_def no_event_def)
  have d: "two_chunk_decoder ''garbled'' = None"
    by (simp add: two_chunk_decoder_def)
  have h': "parts (audio_event ''half-second'') = Some (\<lparr>inlineData = Some ''half-second''\<rparr> # [])"
    by (simp add: audio_event_def no_event_def)
  have d': "two_chunk_decoder ''half-second'' = Some \<lparr>frames = 12000, sampleRate = 24000\<rparr>"
    by (simp add: two_chunk_decoder_def)
  have i0: "max (nextStartTime initial) 10 = 10"
    by (simp add: initial_def)
  have p1: "list_all silent []" by simp
  have p2: "inlineData \<lparr>inlineData = Some ''garbled''\<rparr> = Some ''garbled''" by simp
  have p3: "''garbled'' \<noteq> []" by simp
  note t = failed_decode_drops_chunk [where dec = two_chunk_decoder and d = "''garbled''"
      and now = 10 and s = initial, OF h p1 p2 p3 d]
  have e: "onmessage two_chunk_decoder 10 (audio_event ''garbled'') initial =
     (Threw DecodeError, initial\<lparr>nextStartTime := 10\<rparr>)"
    using t [THEN conjunct1] by (simp add: i0)
  have "(10 :: rat) \<le> 10 \<and>
      parts (audio_event ''half-second'') = Some (\<lparr>inlineData = Some ''half-second''\<rparr> # []) \<and>
      inlineData \<lparr>inlineData = Some ''half-second''\<rparr> = Some ''half-second'' \<and>
      ''half-second'' \<noteq> [] \<and>
      two_chunk_decoder ''half-second'' = Some \<lparr>frames = 12000, sampleRate = 24000\<rparr> \<longrightarrow>
      onmessage two_chunk_decoder 10 (audio_event ''half-second'')
        (snd (onmessage two_chunk_decoder 10 (audio_event ''garbled'') initial)) =
      onmessage two_chunk_decoder 10 (audio_event ''half-second'') initial"
    using t [THEN conjunct2, THEN conjunct2, THEN conjunct2, THEN conjunct2] by blast
  then have l: "onmessage two_chunk_decoder 10 (audio_event ''half-second'')
     (snd (onmessage two_chunk_decoder 10 (audio_event ''garbled'') initial)) =
     onmessage two_chunk_decoder 10 (audio_event ''half-second'') initial"
    using h' d' by simp
  from h d h' d' e l show ?thesis
    by simp
qed

subsection \<open>Transcript assembly\<close>

lemma history_updater_emitted:
  "history_updater acc prev = slice_last 2 (prev @ emitted_records acc)"
  by (simp add: history_updater_def emitted_records_def Let_def)

lemma length_slice_last: "length (slice_last n xs) \<le> n"
  by (simp add: slice_last_def)

lemma on_interrupted_transcript:
  "transcriptionRef (on_interrupted m s) = transcriptionRef s \<and>
   transcription (on_interrupted m s) = transcription s \<and>
   history (on_interrupted m s) = history s"
  by (simp add: on_interrupted_def Let_def)

lemma on_turnComplete_done:
  "turnComplete m \<Longrightarrow>
   history (on_turnComplete m s) = history s \<and>
   historyUpdaters (on_turnComplete m s) = historyUpdaters s + 1 \<and>
   transcriptionRef (on_turnComplete m s) = no_transcript \<and>
   transcription (on_turnComplete m s) = no_transcript"
  by (simp add: on_turnComplete_def Let_def)

lemma deltas_history:
  "history (on_outputTranscription m (on_inputTranscription m s)) = history s"
  by (simp add: on_outputTranscription_def on_inputTranscription_def Let_def split: option.splits)

lemma history_updater_cleared: "history_updater no_transcript prev = slice_last 2 prev"
  by (simp add: history_updater_def no_transcript_def Let_def)

lemma slice_last_short: "length xs \<le> n \<Longrightarrow> slice_last n xs = xs"
  by (simp add: slice_last_def)

lemma updaters_on_cleared_ref:
  "length prev \<le> 2 \<Longrightarrow> (history_updater no_transcript ^^ n) prev = prev"
  by (induction n) (simp_all add: history_updater_cleared slice_last_short)

text \<open>
  After a message marked \<open>turnComplete\<close> the ref is cleared, so a render that
  follows it stores no record, whatever the accumulators held.
\<close>

lemma render_after_turnComplete:
  assumes "turnComplete m" "\<not> carries_audio m" "\<not> interrupted m" "length (history s) \<le> 2"
  shows "history (render (snd (onmessage dec now m s))) = history s"
proof -
  let ?s1 = "on_outputTranscription m (on_inputTranscription m s)"
  have run: "snd (onmessage dec now m s) = on_turnComplete m ?s1"
    using assms(2,3) by (simp add: onmessage_no_audio on_interrupted_def)
  have "transcriptionRef (on_turnComplete m ?s1) = no_transcript"
    "history (on_turnComplete m ?s1) = history s"
    using on_turnComplete_done [OF assms(1), of ?s1] by (simp_all add: deltas_history)
  then show ?thesis
    using assms(4) by (simp add: run render_def updaters_on_cleared_ref)
qed

text \<open>
  Claim C6. A turn-complete event is to store one record for each accumulator that is
  not empty. After the assistant deltas \<open>Hello\<close> and \<open> there\<close> the assistant
  accumulator holds \<open>Hello there\<close>, and the claim expects the one record of that
  text. The message marked \<open>turnComplete\<close> queues the updater and clears the ref; the
  render that follows runs the updater, which finds both accumulators empty: the
  history stays empty. It is the same when a render follows every message.
\<close>

theorem turn_complete_stores_no_record:
  "transcriptionRef (inbound two_chunk_decoder
     [(0, assistant_delta ''Hello''), (0, assistant_delta '' there'')] initial) =
     \<lparr>user = '''', ai = ''Hello there''\<rparr> \<and>
   emitted_records \<lparr>user = '''', ai = ''Hello there''\<rparr> =
     [\<lparr>turn_text = ''Hello there'', turn_role = RoleAi\<rparr>] \<and>
   history (render (inbound two_chunk_decoder
     [(0, assistant_delta ''Hello''), (0, assistant_delta '' there''), (0, turn_complete_event)]
     initial)) = [] \<and>
   transcriptionRef (render (inbound two_chunk_decoder
     [(0, assistant_delta ''Hello''), (0, assistant_delta '' there''), (0, turn_complete_event)]
     initial)) = no_transcript \<and>
   history (render (snd (onmessage two_chunk_decoder 0 turn_complete_event
     (render (snd (onmessage two_chunk_decoder 0 (assistant_delta '' there'')
       (render (snd (onmessage two_chunk_decoder 0 (assistant_delta ''Hello'') initial)))))))))
     = []"
  by (simp add: onmessage_def assistant_delta_def turn_complete_event_def no_event_def
      on_interrupted_def on_turnComplete_def on_outputTranscription_def
      on_inputTranscription_def initial_def no_transcript_def render_def emitted_records_def
      history_updater_def slice_last_def Let_def)

subsection \<open>Interruption\<close>

lemma length_stop_all: "length (stop_all S ns) = length ns"
  by (simp add: stop_all_def)

lemma nth_stop_all:
  "i < length ns \<Longrightarrow>
   stop_all S ns ! i = (if i \<in> S then (ns ! i)\<lparr>stop_called := True\<rparr> else ns ! i)"
  by (simp add: stop_all_def)

lemma transcript_blocks_frame:
  "isActive (on_turnComplete m (on_outputTranscription m (on_inputTranscription m s))) = isActive s \<and>
   liveSession (on_turnComplete m (on_outputTranscription m (on_inputTranscription m s))) = liveSession s \<and>
   connections (on_turnComplete m (on_outputTranscription m (on_inputTranscription m s))) = connections s \<and>
   processors (on_turnComplete m (on_outputTranscription m (on_inputTranscription m s))) = processors s \<and>
   outbox (on_turnComplete m (on_outputTranscription m (on_inputTranscription m s))) = outbox s \<and>
   audioContexts (on_turnComplete m (on_outputTranscription m (on_inputTranscription m s))) = audioContexts s \<and>
   sources (on_turnComplete m (on_outputTranscription m (on_inputTranscription m s))) = sources s \<and>
   nodes (on_turnComplete m (on_outputTranscription m (on_inputTranscription m s))) = nodes s"
  by (simp add: on_turnComplete_def on_outputTranscription_def on_inputTranscription_def Let_def
      split: option.splits)

lemma not_turnComplete_history:
  "\<not> turnComplete m \<Longrightarrow>
   history (on_turnComplete m (on_outputTranscription m (on_inputTranscription m s))) = history s"
  by (simp add: on_turnComplete_def deltas_history)

lemma not_turnComplete_updaters:
  "\<not> turnComplete m \<Longrightarrow>
   historyUpdaters (on_interrupted m
     (on_turnComplete m (on_outputTranscription m (on_inputTranscription m s)))) =
   historyUpdaters s"
  by (simp add: on_interrupted_def on_turnComplete_def on_outputTranscription_def
      on_inputTranscription_def Let_def split: option.splits)

lemma on_interrupted_playback:
  "interrupted m \<Longrightarrow>
   sources (on_interrupted m s) = {} \<and> nextStartTime (on_interrupted m s) = 0 \<and>
   nodes (on_interrupted m s) = stop_all (sources s) (nodes s)"
  by (simp add: on_interrupted_def Let_def)

lemma on_interrupted_frame:
  "isActive (on_interrupted m s) = isActive s \<and> liveSession (on_interrupted m s) = liveSession s \<and>
   connections (on_interrupted m s) = connections s \<and> processors (on_interrupted m s) = processors s \<and>
   outbox (on_interrupted m s) = outbox s \<and> audioContexts (on_interrupted m s) = audioContexts s"
  by (simp add: on_interrupted_def Let_def)

lemma scheduled_after_stop_all:
  "nodes s' = stop_all S (nodes s) \<Longrightarrow> scheduled_or_playing s' = scheduled_or_playing s - S"
  by (auto simp: scheduled_or_playing_def length_stop_all nth_stop_all split: if_splits)

text \<open>
  Claim C10. For a message marked \<open>interrupted\<close> that holds no audio data, the
  run of \<open>onmessage\<close> completes with \<open>sources.current\<close> empty and
  \<open>nextStartTime\<close> at 0; \<open>stop\<close> has been called on exactly the nodes that
  were in the set, so those are no longer scheduled or playing, and every other node is
  as before. \<open>isActive\<close>, the session handle, the connections, the capture
  processors and what they have sent are unchanged, and so are the history and the
  queue of its updaters unless the same message is also marked \<open>turnComplete\<close>.
\<close>

theorem interrupted_touches_playback_only:
  assumes "interrupted m" "\<not> carries_audio m"
  shows "fst (onmessage dec now m s) = Completed \<and>
     sources (snd (onmessage dec now m s)) = {} \<and>
     nextStartTime (snd (onmessage dec now m s)) = 0 \<and>
     scheduled_or_playing (snd (onmessage dec now m s)) = scheduled_or_playing s - sources s \<and>
     length (nodes (snd (onmessage dec now m s))) = length (nodes s) \<and>
     (\<forall>i < length (nodes s).
        nodes (snd (onmessage dec now m s)) ! i =
          (if i \<in> sources s then (nodes s ! i)\<lparr>stop_called := True\<rparr> else nodes s ! i)) \<and>
     isActive (snd (onmessage dec now m s)) = isActive s \<and>
     liveSession (snd (onmessage dec now m s)) = liveSession s \<and>
     connections (snd (onmessage dec now m s)) = connections s \<and>
     processors (snd (onmessage dec now m s)) = processors s \<and>
     outbox (snd (onmessage dec now m s)) = outbox s \<and>
     audioContexts (snd (onmessage dec now m s)) = audioContexts s \<and>
     (\<not> turnComplete m \<longrightarrow>
        history (snd (onmessage dec now m s)) = history s \<and>
        historyUpdaters (snd (onmessage dec now m s)) = historyUpdaters s)"
proof -
  let ?s1 = "on_turnComplete m (on_outputTranscription m (on_inputTranscription m s))"
  have run: "onmessage dec now m s = (Completed, on_interrupted m ?s1)"
    using assms(2) by (rule onmessage_no_audio)
  note pb = on_interrupted_playback [OF assms(1), of ?s1]
  note fr = on_interrupted_frame [of m ?s1]
  note tb = transcript_blocks_frame [of m s]
  have n: "nodes (snd (onmessage dec now m s)) = stop_all (sources s) (nodes s)"
    using pb tb by (simp add: run)
  have "fst (onmessage dec now m s) = Completed"
    by (simp add: run)
  moreover have "sources (snd (onmessage dec now m s)) = {}"
    "nextStartTime (snd (onmessage dec now m s)) = 0"
    using pb by (simp_all add: run)
  moreover have "scheduled_or_playing (snd (onmessage dec now m s)) =
      scheduled_or_playing s - sources s"
    using n by (rule scheduled_after_stop_all)
  moreover have "length (nodes (snd (onmessage dec now m s))) = length (nodes s)"
    by (simp add: n length_stop_all)
  moreover have "\<forall>i < length (nodes s).
        nodes (snd (onmessage dec now m s)) ! i =
          (if i \<in> sources s then (nodes s ! i)\<lparr>stop_called := True\<rparr> else nodes s ! i)"
    by (simp add: n nth_stop_all)
  moreover have "isActive (snd (onmessage dec now m s)) = isActive s"
    "liveSession (snd (onmessage dec now m s)) = liveSession s"
    "connections (snd (onmessage dec now m s)) = connections s"
    "processors (snd (onmessage dec now m s)) = processors s"
    "outbox (snd (onmessage dec now m s)) = outbox s"
    "audioContexts (snd (onmessage dec now m s)) = audioContexts s"
    using fr tb by (simp_all add: run)
  moreover have "\<not> turnComplete m \<longrightarrow>
        history (snd (onmessage dec now m s)) = history s \<and>
        historyUpdaters (snd (onmessage dec now m s)) = historyUpdaters s"
    by (simp add: run on_interrupted_transcript not_turnComplete_history
        not_turnComplete_updaters)
  ultimately show ?thesis
    by blast
qed

theorem interrupted_touches_playback_only_witness:
  "interrupted interrupted_event \<and> \<not> carries_audio interrupted_event \<and>
   \<not> turnComplete interrupted_event \<and>
   (0 :: nat) < length (nodes playing_state) \<and> 0 \<in> sources playing_state \<and>
   scheduled_or_playing playing_state = {0} \<and> isActive playing_state \<and>
   sources (snd (onmessage two_chunk_decoder 11 interrupted_event playing_state)) = {} \<and>
   nextStartTime (snd (onmessage two_chunk_decoder 11 interrupted_event playing_state)) = 0 \<and>
   scheduled_or_playing (snd (onmessage two_chunk_decoder 11 interrupted_event playing_state)) = {} \<and>
   stop_called (nodes (snd (onmessage two_chunk_decoder 11 interrupted_event playing_state)) ! 0) \<and>
   isActive (snd (onmessage two_chunk_decoder 11 interrupted_event playing_state)) \<and>
   history (snd (onmessage two_chunk_decoder 11 interrupted_event playing_state)) =
     history playing_state"
proof -
  have a: "interrupted interrupted_event" "\<not> carries_audio interrupted_event"
    "\<not> turnComplete interrupted_event"
    by (simp_all add: interrupted_event_def no_event_def carries_audio_def)
  have p: "(0 :: nat) < length (nodes playing_state)" "0 \<in> sources playing_state"
    "scheduled_or_playing playing_state = {0}" "isActive playing_state"
    "sources playing_state = {0}"
    by (simp_all add: playing_state_def initial_def scheduled_or_playing_def)
  note t = interrupted_touches_playback_only [OF a(1,2), of two_chunk_decoder 11 playing_state]
  have n0: "nodes (snd (onmessage two_chunk_decoder 11 interrupted_event playing_state)) ! 0 =
      (nodes playing_state ! 0)\<lparr>stop_called := True\<rparr>"
    using t p(1,2) by simp
  have "stop_called (nodes (snd (onmessage two_chunk_decoder 11 interrupted_event playing_state)) ! 0)"
    by (simp add: n0)
  moreover have "scheduled_or_playing
      (snd (onmessage two_chunk_decoder 11 interrupted_event playing_state)) = {}"
    using t by (simp add: p)
  moreover have "isActive (snd (onmessage two_chunk_decoder 11 interrupted_event playing_state))"
    using t p(4) by simp
  moreover have "history (snd (onmessage two_chunk_decoder 11 interrupted_event playing_state)) =
     history playing_state"
    using t a(3) by simp
  ultimately show ?thesis
    using a p t by blast
qed


text \<open>
  Claim C3, as stated, asks that an \<open>interrupted\<close> message clears both
  accumulators. After a user delta \<open>Wait\<close> and an \<open>interrupted\<close> message the
  user accumulator still holds \<open>Wait\<close>.
\<close>

theorem interrupted_leaves_accumulators_filled:
  "transcriptionRef (inbound two_chunk_decoder
      [(0, user_delta ''Wait''), (0, interrupted_event)] initial) = \<lparr>user = ''Wait'', ai = ''''\<rparr> \<and>
   transcriptionRef (inbound two_chunk_decoder
      [(0, user_delta ''Wait''), (0, interrupted_event)] initial) \<noteq> no_transcript"
  by (simp add: onmessage_def user_delta_def interrupted_event_def no_event_def initial_def
      on_interrupted_def on_turnComplete_def on_outputTranscription_def on_inputTranscription_def
      no_transcript_def stop_all_def)

text \<open>
  Claim C3, amended. A message marked \<open>interrupted\<close>, without audio data and not
  marked \<open>turnComplete\<close>, emits no record: the history is unchanged and no updater
  is queued. It clears
  neither accumulator: both, and the displayed transcript, are what the deltas of the
  same message make of them, and exactly what they were when the message holds no
  delta.
\<close>

theorem interrupted_emits_nothing_clears_nothing:
  assumes "interrupted m" "\<not> carries_audio m" "\<not> turnComplete m"
  shows "history (snd (onmessage dec now m s)) = history s \<and>
     historyUpdaters (snd (onmessage dec now m s)) = historyUpdaters s \<and>
     transcriptionRef (snd (onmessage dec now m s)) =
       transcriptionRef (on_outputTranscription m (on_inputTranscription m s)) \<and>
     transcription (snd (onmessage dec now m s)) =
       transcription (on_outputTranscription m (on_inputTranscription m s)) \<and>
     (inputTranscription m = None \<and> outputTranscription m = None \<longrightarrow>
        transcriptionRef (snd (onmessage dec now m s)) = transcriptionRef s \<and>
        transcription (snd (onmessage dec now m s)) = transcription s)"
proof -
  let ?s1 = "on_outputTranscription m (on_inputTranscription m s)"
  have run: "onmessage dec now m s = (Completed, on_interrupted m (on_turnComplete m ?s1))"
    using assms(2) by (rule onmessage_no_audio)
  have tc: "on_turnComplete m ?s1 = ?s1"
    using assms(3) by (simp add: on_turnComplete_def)
  have none: "inputTranscription m = None \<and> outputTranscription m = None \<longrightarrow> ?s1 = s"
    by (simp add: on_outputTranscription_def on_inputTranscription_def)
  have "history (snd (onmessage dec now m s)) = history s"
    by (simp add: run tc on_interrupted_transcript deltas_history)
  moreover have "historyUpdaters (snd (onmessage dec now m s)) = historyUpdaters s"
    using assms(3) by (simp add: run not_turnComplete_updaters)
  moreover have "transcriptionRef (snd (onmessage dec now m s)) = transcriptionRef ?s1"
    "transcription (snd (onmessage dec now m s)) = transcription ?s1"
    by (simp_all add: run tc on_interrupted_transcript)
  ultimately show ?thesis
    using none by auto
qed

theorem interrupted_emits_nothing_clears_nothing_witness:
  "interrupted interrupted_event \<and> \<not> carries_audio interrupted_event \<and>
   \<not> turnComplete interrupted_event \<and>
   inputTranscription interrupted_event = None \<and> outputTranscription interrupted_event = None \<and>
   transcriptionRef (snd (onmessage two_chunk_decoder 0 (user_delta ''Wait'') initial)) =
     \<lparr>user = ''Wait'', ai = ''''\<rparr> \<and>
   transcriptionRef (snd (onmessage two_chunk_decoder 0 interrupted_event
     (snd (onmessage two_chunk_decoder 0 (user_delta ''Wait'') initial)))) =
     \<lparr>user = ''Wait'', ai = ''''\<rparr> \<and>
   history (snd (onmessage two_chunk_decoder 0 interrupted_event
     (snd (onmessage two_chunk_decoder 0 (user_delta ''Wait'') initial)))) = []"
proof -
  let ?s1 = "snd (onmessage two_chunk_decoder 0 (user_delta ''Wait'') initial)"
  have a: "interrupted interrupted_event" "\<not> carries_audio interrupted_event"
    "\<not> turnComplete interrupted_event"
    and b: "inputTranscription interrupted_event = None \<and> outputTranscription interrupted_event = None"
    by (simp_all add: interrupted_event_def no_event_def carries_audio_def)
  have s1: "transcriptionRef ?s1 = \<lparr>user = ''Wait'', ai = ''''\<rparr>" "history ?s1 = []"
    by (simp_all add: onmessage_def user_delta_def no_event_def initial_def
      on_interrupted_def on_turnComplete_def on_outputTranscription_def on_inputTranscription_def
      no_transcript_def)
  note t = interrupted_emits_nothing_clears_nothing [OF a, of two_chunk_decoder 0 ?s1]
  have "transcriptionRef (snd (onmessage two_chunk_decoder 0 interrupted_event ?s1)) =
      transcriptionRef ?s1"
    using t b by blast
  moreover have "history (snd (onmessage two_chunk_decoder 0 interrupted_event ?s1)) = history ?s1"
    using t by blast
  ultimately show ?thesis
    using a b s1 by simp
qed

subsection \<open>Start, stop and capture\<close>

lemma length_close_session: "length (close_session c cs) = length cs"
  by (simp add: close_session_def)

lemma promise_close_session:
  "i < length cs \<Longrightarrow> promise (close_session c cs ! i) = promise (cs ! i)"
  by (simp add: close_session_def nth_list_update)

lemma close_session_closes:
  "c < length cs \<Longrightarrow> close_called (close_session c cs ! c)"
  by (simp add: close_session_def)

lemma stopSession_fields:
  "isActive (stopSession s) = False"
  "liveSession (stopSession s) = None"
  "sources (stopSession s) = {}"
  "transcription (stopSession s) = no_transcript"
  "transcriptionRef (stopSession s) = no_transcript"
  "nodes (stopSession s) = stop_all (sources s) (nodes s)"
  "history (stopSession s) = history s"
  "processors (stopSession s) = processors s"
  "outbox (stopSession s) = outbox s"
  "audioContexts (stopSession s) = audioContexts s"
  "connections (stopSession s) =
     (case liveSession s of None \<Rightarrow> connections s | Some c \<Rightarrow> close_session c (connections s))"
  by (simp_all add: stopSession_def Let_def split: option.splits)

lemma handed_to_send_stopSession: "handed_to_send (stopSession s) = handed_to_send s"
proof -
  have "length (connections (stopSession s)) = length (connections s)"
    by (simp add: stopSession_fields length_close_session split: option.splits)
  moreover have "c < length (connections s) \<Longrightarrow>
      promise (connections (stopSession s) ! c) = promise (connections s ! c)" for c
    by (simp add: stopSession_fields promise_close_session split: option.splits)
  ultimately show ?thesis
    by (auto simp: handed_to_send_def stopSession_fields intro!: filter_cong)
qed

text \<open>
  Claim C7, as stated, asks that a start request while the session is connecting
  stops it. After a first start request and before the channel opens, \<open>isActive\<close>
  is still false; a second start request calls \<open>connect\<close> again, leaving two
  pending connections, which is not what \<open>stopSession\<close> does to that state.
\<close>

theorem start_while_connecting_connects_again:
  "\<not> isActive connecting_state \<and>
   connections connecting_state = [\<lparr>promise = Pending, close_called = False\<rparr>] \<and>
   connections (startSession Acquired connecting_state) =
     [\<lparr>promise = Pending, close_called = False\<rparr>, \<lparr>promise = Pending, close_called = False\<rparr>] \<and>
   startSession Acquired connecting_state \<noteq> stopSession connecting_state"
proof -
  have c: "connecting_state =
      initial\<lparr>audioContexts := True, connections := [\<lparr>promise = Pending, close_called = False\<rparr>]\<rparr>"
    by (simp add: connecting_state_def startSession_def initial_def)
  have a: "\<not> isActive connecting_state"
    "connections connecting_state = [\<lparr>promise = Pending, close_called = False\<rparr>]"
    "liveSession connecting_state = None"
    by (simp_all add: c initial_def)
  have two: "connections (startSession Acquired connecting_state) =
     [\<lparr>promise = Pending, close_called = False\<rparr>, \<lparr>promise = Pending, close_called = False\<rparr>]"
    by (simp add: startSession_def a)
  have one: "connections (stopSession connecting_state) =
     [\<lparr>promise = Pending, close_called = False\<rparr>]"
    by (simp add: stopSession_fields a)
  have "connections (startSession Acquired connecting_state) \<noteq>
      connections (stopSession connecting_state)"
    unfolding two one by simp
  then have "startSession Acquired connecting_state \<noteq> stopSession connecting_state"
    by (rule contrapos_nn) simp
  with a two show ?thesis
    by simp
qed

text \<open>
  Claim C7, amended. While \<open>isActive\<close> holds, a start request is
  \<open>stopSession\<close> and nothing else: afterwards the session is inactive, the handle
  is cleared and \<open>close\<close> has been called on the session it held, no connection was
  added, the registered sources are stopped and the set is empty,
  \<open>nextStartTime\<close> is 0 and both transcripts are empty. While \<open>isActive\<close>
  does not hold, which includes the time between the request and the opening of the
  channel, a start request that acquires the devices stops nothing and calls
  \<open>connect\<close> once more.
\<close>

theorem start_request_toggles_on_isActive:
  "(isActive s \<longrightarrow>
      startSession acquired s = stopSession s \<and>
      \<not> isActive (startSession acquired s) \<and>
      liveSession (startSession acquired s) = None \<and>
      length (connections (startSession acquired s)) = length (connections s) \<and>
      (\<forall>c. liveSession s = Some c \<and> c < length (connections s) \<longrightarrow>
         close_called (connections (startSession acquired s) ! c)) \<and>
      sources (startSession acquired s) = {} \<and>
      scheduled_or_playing (startSession acquired s) = scheduled_or_playing s - sources s \<and>
      nextStartTime (startSession acquired s) = 0 \<and>
      transcription (startSession acquired s) = no_transcript \<and>
      transcriptionRef (startSession acquired s) = no_transcript) \<and>
   (\<not> isActive s \<longrightarrow>
      startSession Acquired s =
        s\<lparr>audioContexts := True,
          connections := connections s @ [\<lparr>promise = Pending, close_called = False\<rparr>]\<rparr>)"
proof -
  have stop: "length (connections (stopSession s)) = length (connections s)"
    by (simp add: stopSession_fields length_close_session split: option.splits)
  have closes: "\<forall>c. liveSession s = Some c \<and> c < length (connections s) \<longrightarrow>
         close_called (connections (stopSession s) ! c)"
    by (simp add: stopSession_fields close_session_closes)
  have sched: "scheduled_or_playing (stopSession s) = scheduled_or_playing s - sources s"
    by (rule scheduled_after_stop_all) (simp add: stopSession_fields)
  have active: "isActive s \<Longrightarrow> startSession acquired s = stopSession s"
    by (simp add: startSession_def)
  have idle: "\<not> isActive s \<Longrightarrow> startSession Acquired s =
        s\<lparr>audioContexts := True,
          connections := connections s @ [\<lparr>promise = Pending, close_called = False\<rparr>]\<rparr>"
    by (simp add: startSession_def)
  show ?thesis
    using stop closes sched idle
    by (simp add: active stopSession_fields stopSession_nextStartTime)
qed

lemma active_state_eq:
  "active_state =
     initial\<lparr>isActive := True, audioContexts := True, liveSession := Some 0,
       connections := [\<lparr>promise = Fulfilled, close_called = False\<rparr>], processors := [0]\<rparr>"
  by (simp add: active_state_def connecting_state_def startSession_def onopen_def
      connect_fulfilled_def initial_def)

theorem start_request_toggles_on_isActive_witness:
  "isActive active_state \<and>
   liveSession active_state = Some 0 \<and> (0 :: nat) < length (connections active_state) \<and>
   startSession Acquired active_state = stopSession active_state \<and>
   \<not> isActive (startSession Acquired active_state) \<and>
   close_called (connections (startSession Acquired active_state) ! 0) \<and>
   length (connections (startSession Acquired active_state)) = 1 \<and>
   \<not> isActive connecting_state \<and>
   length (connections (startSession Acquired connecting_state)) = 2"
proof -
  have a: "isActive active_state" "liveSession active_state = Some 0"
    "(0 :: nat) < length (connections active_state)" "length (connections active_state) = 1"
    by (simp_all add: active_state_eq initial_def)
  have c: "\<not> isActive connecting_state" "length (connections connecting_state) = 1"
    by (simp_all add: connecting_state_def startSession_def initial_def)
  note t1 = start_request_toggles_on_isActive [of active_state Acquired, THEN conjunct1, rule_format, OF a(1)]
  note t2 = start_request_toggles_on_isActive [of connecting_state Acquired, THEN conjunct2, rule_format, OF c(1)]
  have "close_called (connections (startSession Acquired active_state) ! 0)"
    using t1 a(2,3) by blast
  moreover have "length (connections (startSession Acquired active_state)) = 1"
    using t1 [THEN conjunct2, THEN conjunct2, THEN conjunct2, THEN conjunct1] a(4)
    by (simp only:)
  moreover have "length (connections (startSession Acquired connecting_state)) = 2"
    by (simp add: t2 c(2))
  ultimately show ?thesis
    using a c t1 by blast
qed

text \<open>
  Claim C8, as stated, asks that no frame delivered after a stop is encoded or sent.
  In the active session, after \<open>stopSession\<close>, a frame delivered to the script
  processor is encoded and handed to \<open>sendRealtimeInput\<close>.
\<close>

theorem frame_after_stop_is_sent:
  "isActive active_state \<and> \<not> isActive (stopSession active_state) \<and>
   handed_to_send (stopSession active_state) = [] \<and>
   handed_to_send (deliver_frame 0 [Number 1] (stopSession active_state)) =
     [(0, pcmBlob [Number 1])]"
  by (simp add: active_state_eq initial_def stopSession_def deliver_frame_def onaudioprocess_def
      handed_to_send_def close_session_def)

text \<open>
  Claim C8, amended. \<open>stopSession\<close> leaves every script processor connected. A
  frame delivered to a connected processor after the stop is encoded and its
  callback attached to the \<open>sessionPromise\<close> of that processor; when that promise is
  fulfilled the blob is handed to \<open>sendRealtimeInput\<close> of the session, closed or
  not.
\<close>

theorem stop_leaves_capture_attached:
  "processors (stopSession s) = processors s \<and>
   (c \<in> set (processors s) \<longrightarrow>
      outbox (deliver_frame c inputData (stopSession s)) = outbox s @ [(c, pcmBlob inputData)] \<and>
      (c < length (connections s) \<and> promise (connections s ! c) = Fulfilled \<longrightarrow>
         handed_to_send (deliver_frame c inputData (stopSession s)) =
           handed_to_send s @ [(c, pcmBlob inputData)]))"
proof -
  have p: "processors (stopSession s) = processors s"
    by (simp add: stopSession_fields)
  have d: "deliver_frame c inputData (stopSession s) =
      (stopSession s)\<lparr>outbox := outbox s @ [(c, pcmBlob inputData)]\<rparr>"
    if "c \<in> set (processors s)"
    using that by (simp add: deliver_frame_def onaudioprocess_def stopSession_fields)
  have len: "length (connections (stopSession s)) = length (connections s)"
    by (simp add: stopSession_fields length_close_session split: option.splits)
  have pr: "promise (connections (stopSession s) ! c) = promise (connections s ! c)"
    if "c < length (connections s)"
    using that by (simp add: stopSession_fields promise_close_session split: option.splits)
  have h: "handed_to_send (deliver_frame c inputData (stopSession s)) =
      handed_to_send s @ [(c, pcmBlob inputData)]"
    if "c \<in> set (processors s)" "c < length (connections s)"
      "promise (connections s ! c) = Fulfilled"
  proof -
    have "handed_to_send ((stopSession s)\<lparr>outbox := outbox s @ [(c, pcmBlob inputData)]\<rparr>) =
        handed_to_send (stopSession s) @ [(c, pcmBlob inputData)]"
      using that(2,3) len pr [OF that(2)]
      by (simp add: handed_to_send_def stopSession_fields)
    then show ?thesis
      by (simp add: d [OF that(1)] handed_to_send_stopSession)
  qed
  show ?thesis
    using p d h by simp
qed

theorem stop_leaves_capture_attached_witness:
  "(0 :: nat) \<in> set (processors active_state) \<and> (0 :: nat) < length (connections active_state) \<and>
   promise (connections active_state ! 0) = Fulfilled \<and>
   processors (stopSession active_state) = [0] \<and>
   outbox (deliver_frame 0 [Number 1, Number (- 1)] (stopSession active_state)) =
     [(0, pcmBlob [Number 1, Number (- 1)])] \<and>
   handed_to_send (deliver_frame 0 [Number 1, Number (- 1)] (stopSession active_state)) =
     [(0, pcmBlob [Number 1, Number (- 1)])]"
proof -
  have a: "(0 :: nat) \<in> set (processors active_state)"
    "(0 :: nat) < length (connections active_state)"
    "promise (connections active_state ! 0) = Fulfilled"
    and b: "processors active_state = [0]" "outbox active_state = []"
    "handed_to_send active_state = []"
    by (simp_all add: active_state_eq initial_def handed_to_send_def)
  note t = stop_leaves_capture_attached [of active_state 0 "[Number 1, Number (- 1)]"]
  have "processors (stopSession active_state) = [0]"
    using t b(1) by simp
  moreover have "outbox (deliver_frame 0 [Number 1, Number (- 1)] (stopSession active_state)) =
     [(0, pcmBlob [Number 1, Number (- 1)])]"
    using t a(1) b(2) by simp
  moreover have "handed_to_send (deliver_frame 0 [Number 1, Number (- 1)] (stopSession active_state)) =
     [(0, pcmBlob [Number 1, Number (- 1)])]"
    using t a b(3) by simp
  ultimately show ?thesis
    using a by blast
qed

subsection \<open>The set of active sources\<close>

lemma onmessage_sources: "sources (snd (onmessage dec now m s)) \<subseteq> sources s"
proof (cases "parts m")
  case None
  then show ?thesis
    using transcript_blocks_frame [of m s]
    by (simp add: onmessage_def on_interrupted_def Let_def)
next
  case (Some ps)
  obtain out s1 where h: "handle_parts dec now ps s = (out, s1)"
    by (cases "handle_parts dec now ps s")
  have "sources s1 = sources s"
    using handle_parts_frame [OF h] by simp
  then show ?thesis
    using Some h transcript_blocks_frame [of m s1]
    by (cases out) (simp_all add: onmessage_def on_interrupted_def Let_def)
qed

text \<open>
  Claim C4. The set \<open>sources.current\<close> is meant to hold every source that is
  scheduled or playing. No run of \<open>onmessage\<close> adds an element to it. From the
  initial state, one message with one decodable chunk, arriving when the clock reads
  10: the source is started, so node 0 is scheduled, but the run ends in the TypeError
  of line 119 and the set stays empty.
\<close>

theorem scheduled_source_not_registered:
  "sources (snd (onmessage dec now m s)) \<subseteq> sources s \<and>
   fst (onmessage two_chunk_decoder 10 (audio_event ''half-second'') initial) = Threw TypeError \<and>
   scheduled_or_playing (snd (onmessage two_chunk_decoder 10 (audio_event ''half-second'') initial)) = {0} \<and>
   sources (snd (onmessage two_chunk_decoder 10 (audio_event ''half-second'') initial)) = {}"
  using onmessage_sources [of dec now m s]
  by (simp add: onmessage_def audio_event_def no_event_def two_chunk_decoder_def initial_def
      scheduled_or_playing_def Let_def)

end
